theory Spec2Isabelle
  imports Main "HOL-Library.Word"
begin

section \<open>Values shared by the two modules\<close>

text \<open>
  A Node \<open>Buffer\<close> is a sequence of bytes. A thrown JavaScript exception (and a rejected
  promise) is the left summand of a result: \<open>Error msg\<close> is \<open>new Error(msg)\<close>, and
  \<open>TypeError\<close> is what the engine throws when a property of \<open>undefined\<close> or \<open>null\<close> is
  read, or when a value that is not iterable is given to \<open>for ... of\<close> (its message depends
  on the engine and is left out).
\<close>

type_synonym buffer = "8 word list"

datatype js_error = Error string | TypeError

text \<open>
  A property of an object received from the node may be present, \<open>null\<close>, or absent
  (reading it gives \<open>undefined\<close>).
\<close>

datatype 'a nullable = Undefined | Null | Defined 'a

text \<open>
  Modelled from the spec: the type \<open>KeyStore\<close> is declared in \<open>types/KeyStore\<close>, which
  is not among the source files; section 3 of the specification gives it as the three
  encoded strings below.
\<close>

record KeyStore =
  publicKey :: string
  privateKey :: string
  publicKeyHash :: string

section \<open>The types of \<open>TezosTypes.ts\<close>\<close>

record BlockHeader =
  level :: int
  proto :: int
  predecessor :: string
  timestamp :: string
  validation_pass :: int
  operations_hash :: string
  fitness :: "string list"
  header_context :: string
  priority :: int
  proof_of_work_nonce :: string
  header_signature :: string

record BlockMetadata =
  protocol :: string
  chain_id :: string
  hash :: string
  metadata :: BlockHeader

record AccountDelegate =
  setable :: bool
  delegate_value :: string

record Account =
  manager :: string
  balance :: int
  account_spendable :: bool
  account_delegate :: AccountDelegate
  script :: string
  counter :: int

record ManagerKey =
  key_manager :: string
  key :: "string nullable"

record AlphaOperationResult =
  status :: string
  originated_contracts :: "string list"
  errors :: "string list"

text \<open>
  \<open>checkAppliedOperationResults\<close> takes an untyped argument and reads \<open>kind\<close> and \<open>id\<close> of
  every entry of \<open>contents\<close>, so an entry carries both, each possibly absent. The fields of
  the top-level result that the interface marks ``only if error'' are nullable, and so is
  \<open>contents\<close>, which an error report of the node does not have.
\<close>

record AlphaOperationContentsAndResult =
  content_kind :: "string nullable"
  content_id :: "string nullable"
  content_metadata :: "AlphaOperationResult nullable"

record AlphaOperationsWithMetadata =
  applied_contents :: "AlphaOperationContentsAndResult list nullable"
  applied_signature :: "string nullable"
  applied_kind :: "string nullable"
  applied_id :: "string nullable"
  applied_contract :: "string nullable"

section \<open>Operation contents and the payloads sent to the node\<close>

text \<open>
  The operations handed to \<open>sendOperation\<close> are plain JavaScript object literals
  (\<open>object[]\<close>): a field list in the order of the literal.
\<close>

datatype json =
    JString string
  | JBool bool
  | JArray "json list"
  | JObject "(string \<times> json) list"

record ForgePayload =
  forge_branch :: string
  forge_contents :: "json list"

record ApplyPayload =
  apply_protocol :: string
  apply_branch :: string
  apply_contents :: "json list"
  apply_signature :: string

record SignedOperationGroup =
  bytes :: buffer
  signature :: string

record OperationResult =
  results :: "AlphaOperationsWithMetadata nullable"
  operationGroupID :: string

section \<open>The remote node\<close>

text \<open>
  \<open>TezosNode\<close> (\<open>TezosNodeQuery\<close>) is not among the source files: it is a parameter. Every
  request is recorded in a log of calls, and the answer of the node may depend on all the
  calls made before, so that any deterministic stateful node is an instance. An answer is
  the value the promise resolves to, or the error it is rejected with.
\<close>

datatype rpc_call =
    GetBlockHead string
  | GetAccountForBlock string string string
  | GetAccountManagerForBlock string string string
  | ForgeOperation string ForgePayload
  | ApplyOperation string "ApplyPayload list"
  | InjectOperation string string

record TezosNode =
  node_getBlockHead :: "rpc_call list \<Rightarrow> string \<Rightarrow> js_error + BlockMetadata"
  node_getAccountForBlock :: "rpc_call list \<Rightarrow> string \<Rightarrow> string \<Rightarrow> string \<Rightarrow> js_error + Account"
  node_getAccountManagerForBlock ::
    "rpc_call list \<Rightarrow> string \<Rightarrow> string \<Rightarrow> string \<Rightarrow> js_error + ManagerKey"
  node_forgeOperation :: "rpc_call list \<Rightarrow> string \<Rightarrow> ForgePayload \<Rightarrow> js_error + string"
  node_applyOperation ::
    "rpc_call list \<Rightarrow> string \<Rightarrow> ApplyPayload list \<Rightarrow> js_error + AlphaOperationsWithMetadata list"
  node_injectOperation :: "rpc_call list \<Rightarrow> string \<Rightarrow> string \<Rightarrow> js_error + string"

text \<open>
  A promise is a computation over the log of calls made so far. \<open>await\<close> runs the
  continuation on the value a promise resolves to and passes a rejection on; \<open>sync\<close> is a
  synchronous step, which returns or throws without calling the node.
\<close>

type_synonym 'a promise = "rpc_call list \<Rightarrow> (js_error + 'a) \<times> rpc_call list"

definition resolve :: "'a \<Rightarrow> 'a promise" where
  "resolve x log = (Inr x, log)"

definition sync :: "js_error + 'a \<Rightarrow> 'a promise" where
  "sync r log = (r, log)"

definition await :: "'a promise \<Rightarrow> ('a \<Rightarrow> 'b promise) \<Rightarrow> 'b promise" where
  "await m k log =
     (case m log of
        (Inl e, log') \<Rightarrow> (Inl e, log')
      | (Inr x, log') \<Rightarrow> k x log')"

definition TezosNode_getBlockHead :: "TezosNode \<Rightarrow> string \<Rightarrow> BlockMetadata promise" where
  "TezosNode_getBlockHead node network log =
     (node_getBlockHead node log network, log @ [GetBlockHead network])"

definition TezosNode_getAccountForBlock ::
  "TezosNode \<Rightarrow> string \<Rightarrow> string \<Rightarrow> string \<Rightarrow> Account promise" where
  "TezosNode_getAccountForBlock node network blockHash accountID log =
     (node_getAccountForBlock node log network blockHash accountID,
      log @ [GetAccountForBlock network blockHash accountID])"

definition TezosNode_getAccountManagerForBlock ::
  "TezosNode \<Rightarrow> string \<Rightarrow> string \<Rightarrow> string \<Rightarrow> ManagerKey promise" where
  "TezosNode_getAccountManagerForBlock node network blockHash accountID log =
     (node_getAccountManagerForBlock node log network blockHash accountID,
      log @ [GetAccountManagerForBlock network blockHash accountID])"

definition TezosNode_forgeOperation :: "TezosNode \<Rightarrow> string \<Rightarrow> ForgePayload \<Rightarrow> string promise" where
  "TezosNode_forgeOperation node network payload log =
     (node_forgeOperation node log network payload, log @ [ForgeOperation network payload])"

definition TezosNode_applyOperation ::
  "TezosNode \<Rightarrow> string \<Rightarrow> ApplyPayload list \<Rightarrow> AlphaOperationsWithMetadata list promise" where
  "TezosNode_applyOperation node network payload log =
     (node_applyOperation node log network payload, log @ [ApplyOperation network payload])"

definition TezosNode_injectOperation :: "TezosNode \<Rightarrow> string \<Rightarrow> string \<Rightarrow> string promise" where
  "TezosNode_injectOperation node network payload log =
     (node_injectOperation node log network payload, log @ [InjectOperation network payload])"

section \<open>libsodium and \<open>CryptoUtils\<close>\<close>

text \<open>
  \<open>sodium.from_hex\<close> reads two hexadecimal digits per byte, in either case, from left to
  right, and throws at the first character that is not a digit and on a text of odd length;
  \<open>sodium.to_hex\<close> writes two lower-case digits per byte.
\<close>

definition hex_value :: "char \<Rightarrow> nat option" where
  "hex_value c =
     (let n = of_char c :: nat in
      if 48 \<le> n \<and> n \<le> 57 then Some (n - 48)
      else if 97 \<le> n \<and> n \<le> 102 then Some (n - 87)
      else if 65 \<le> n \<and> n \<le> 70 then Some (n - 55)
      else None)"

fun from_hex :: "string \<Rightarrow> js_error + buffer" where
  "from_hex [] = Inr []"
| "from_hex [c] =
     (case hex_value c of
        None \<Rightarrow> Inl (Error ''incomplete input'')
      | Some hi \<Rightarrow> Inl (Error ''invalid input''))"
| "from_hex (c # d # rest) =
     (case hex_value c of
        None \<Rightarrow> Inl (Error ''incomplete input'')
      | Some hi \<Rightarrow>
          (case hex_value d of
             None \<Rightarrow> Inl (Error ''invalid input'')
           | Some lo \<Rightarrow>
               (case from_hex rest of
                  Inl e \<Rightarrow> Inl e
                | Inr bs \<Rightarrow> Inr (of_nat (16 * hi + lo) # bs))))"

definition hex_digit :: "nat \<Rightarrow> char" where
  "hex_digit n = ''0123456789abcdef'' ! n"

fun to_hex :: "buffer \<Rightarrow> string" where
  "to_hex [] = []"
| "to_hex (b # bs) = hex_digit (unat b div 16) # hex_digit (unat b mod 16) # to_hex bs"

text \<open>
  The hash and the signature of libsodium are parameters. \<open>crypto_generichash\<close> takes the
  length of the digest first; \<open>crypto_sign_detached\<close> throws on a key it does not accept.
\<close>

record sodium =
  crypto_generichash :: "nat \<Rightarrow> buffer \<Rightarrow> buffer"
  crypto_sign_detached :: "buffer \<Rightarrow> buffer \<Rightarrow> js_error + buffer"

text \<open>
  \<open>CryptoUtils\<close> (\<open>utils/CryptoUtils\<close>) is not among the source files: its functions are
  parameters, with the arguments their callers pass. Decoding and decrypting may throw.
  \<open>generateSaltForPwHash\<close> is random: the salt it returned is an argument of the caller's
  model.
\<close>

record CryptoUtils =
  base58CheckEncode :: "buffer \<Rightarrow> string \<Rightarrow> string"
  base58CheckDecode :: "string \<Rightarrow> string \<Rightarrow> js_error + buffer"
  encryptMessage :: "string \<Rightarrow> string \<Rightarrow> buffer \<Rightarrow> buffer"
  decryptMessage :: "buffer \<Rightarrow> string \<Rightarrow> buffer \<Rightarrow> js_error + string"
  getKeysFromMnemonicAndPassphrase :: "string \<Rightarrow> string \<Rightarrow> js_error + KeyStore"

section \<open>\<open>TezosOperations\<close>\<close>

definition signOperationGroup ::
  "sodium \<Rightarrow> CryptoUtils \<Rightarrow> string \<Rightarrow> KeyStore \<Rightarrow> js_error + SignedOperationGroup" where
  "signOperationGroup so cu forgedOperation keyStore =
     (let watermark = ''03'' in
      case from_hex (watermark @ forgedOperation) of
        Inl e \<Rightarrow> Inl e
      | Inr watermarkedForgedOperationBytes \<Rightarrow>
     (case base58CheckDecode cu (privateKey keyStore) ''edsk'' of
        Inl e \<Rightarrow> Inl e
      | Inr privateKeyBytes \<Rightarrow>
     (let hashedWatermarkedOpBytes = crypto_generichash so 32 watermarkedForgedOperationBytes in
      case crypto_sign_detached so hashedWatermarkedOpBytes privateKeyBytes of
        Inl e \<Rightarrow> Inl e
      | Inr opSignature \<Rightarrow>
     (let hexSignature = base58CheckEncode cu opSignature ''edsig'' in
      case from_hex forgedOperation of
        Inl e \<Rightarrow> Inl e
      | Inr forgedBytes \<Rightarrow>
          Inr \<lparr>bytes = forgedBytes @ opSignature, signature = hexSignature\<rparr>))))"

definition computeOperationHash :: "sodium \<Rightarrow> CryptoUtils \<Rightarrow> SignedOperationGroup \<Rightarrow> string" where
  "computeOperationHash so cu signedOpGroup =
     (let hash = crypto_generichash so 32 (bytes signedOpGroup) in
      base58CheckEncode cu hash ''op'')"

definition forgeOperations ::
  "TezosNode \<Rightarrow> string \<Rightarrow> BlockMetadata \<Rightarrow> json list \<Rightarrow> string promise" where
  "forgeOperations node network blockHead operations =
     (let payload = \<lparr>forge_branch = hash blockHead, forge_contents = operations\<rparr> in
      TezosNode_forgeOperation node network payload)"

definition applyOperation ::
  "TezosNode \<Rightarrow> string \<Rightarrow> BlockMetadata \<Rightarrow> json list \<Rightarrow> string \<Rightarrow> string \<Rightarrow>
   SignedOperationGroup \<Rightarrow> AlphaOperationsWithMetadata list promise" where
  "applyOperation node network blockHead operations operationGroupHash forgedOperationGroup
     signedOpGroup =
     (let payload = [\<lparr>apply_protocol = protocol blockHead,
                      apply_branch = hash blockHead,
                      apply_contents = operations,
                      apply_signature = signature signedOpGroup\<rparr>] in
      TezosNode_applyOperation node network payload)"

definition validAppliedKinds :: "string list" where
  "validAppliedKinds =
     [''activate_account'', ''reveal'', ''transaction'', ''origination'', ''delegation'']"

text \<open>\<open>validAppliedKinds.has(k)\<close>: a kind that is \<open>null\<close> or absent is not in the set.\<close>

definition validAppliedKinds_has :: "string nullable \<Rightarrow> bool" where
  "validAppliedKinds_has k =
     (case k of Defined s \<Rightarrow> s \<in> set validAppliedKinds | _ \<Rightarrow> False)"

text \<open>The template literal \<open>`${x}`\<close> on a string that may be \<open>null\<close> or absent.\<close>

definition template :: "string nullable \<Rightarrow> string" where
  "template x = (case x of Defined s \<Rightarrow> s | Null \<Rightarrow> ''null'' | Undefined \<Rightarrow> ''undefined'')"

definition could_not_apply :: "string nullable \<Rightarrow> js_error" where
  "could_not_apply i = Error (''Could not apply operation because: '' @ template i)"

text \<open>The loop over \<open>firstAppliedOp.contents\<close>.\<close>

fun check_contents :: "AlphaOperationContentsAndResult list \<Rightarrow> js_error + unit" where
  "check_contents [] = Inr ()"
| "check_contents (op # ops) =
     (if \<not> validAppliedKinds_has (content_kind op) then Inl (could_not_apply (content_id op))
      else check_contents ops)"

definition checkAppliedOperationResults ::
  "AlphaOperationsWithMetadata list \<Rightarrow> js_error + unit" where
  "checkAppliedOperationResults appliedOp =
     (case appliedOp of
        [] \<Rightarrow> Inl TypeError
      | firstAppliedOp # _ \<Rightarrow>
          if (applied_kind firstAppliedOp \<noteq> Undefined \<and> applied_kind firstAppliedOp \<noteq> Null)
             \<and> \<not> validAppliedKinds_has (applied_kind firstAppliedOp)
          then Inl (could_not_apply (applied_id firstAppliedOp))
          else (case applied_contents firstAppliedOp of
                  Defined contents \<Rightarrow> check_contents contents
                | _ \<Rightarrow> Inl TypeError))"

definition injectOperation ::
  "TezosNode \<Rightarrow> string \<Rightarrow> SignedOperationGroup \<Rightarrow> string promise" where
  "injectOperation node network signedOpGroup =
     (let payload = to_hex (bytes signedOpGroup) in
      TezosNode_injectOperation node network payload)"

text \<open>\<open>appliedOp[0]\<close>: \<open>undefined\<close> on an empty array.\<close>

definition first_element :: "'a list \<Rightarrow> 'a nullable" where
  "first_element xs = (case xs of [] \<Rightarrow> Undefined | x # _ \<Rightarrow> Defined x)"

definition sendOperation ::
  "TezosNode \<Rightarrow> sodium \<Rightarrow> CryptoUtils \<Rightarrow> string \<Rightarrow> json list \<Rightarrow> KeyStore \<Rightarrow>
   OperationResult promise" where
  "sendOperation node so cu network operations keyStore =
     await (TezosNode_getBlockHead node network) (\<lambda>blockHead.
     await (forgeOperations node network blockHead operations) (\<lambda>forgedOperationGroup.
     await (sync (signOperationGroup so cu forgedOperationGroup keyStore)) (\<lambda>signedOpGroup.
     (let operationGroupHash = computeOperationHash so cu signedOpGroup in
     await (applyOperation node network blockHead operations operationGroupHash
              forgedOperationGroup signedOpGroup) (\<lambda>appliedOp.
     await (sync (checkAppliedOperationResults appliedOp)) (\<lambda>_.
     await (injectOperation node network signedOpGroup) (\<lambda>injectedOperation.
     resolve \<lparr>results = first_element appliedOp,
              operationGroupID = injectedOperation\<rparr>)))))))"


definition digit_char :: "nat \<Rightarrow> char" where
  "digit_char n = ''0123456789'' ! n"

fun decimal :: "nat \<Rightarrow> string" where
  "decimal n = (if n < 10 then [digit_char n] else decimal (n div 10) @ [digit_char (n mod 10)])"

declare decimal.simps [simp del]

definition Number_toString :: "int \<Rightarrow> string" where
  "Number_toString n = (if n < 0 then CHR ''-'' # decimal (nat (- n)) else decimal (nat n))"

definition sendTransactionOperation ::
  "TezosNode \<Rightarrow> sodium \<Rightarrow> CryptoUtils \<Rightarrow> string \<Rightarrow> KeyStore \<Rightarrow> string \<Rightarrow> int \<Rightarrow> int \<Rightarrow>
   OperationResult promise" where
  "sendTransactionOperation node so cu network keyStore to amount fee =
     await (TezosNode_getBlockHead node network) (\<lambda>blockHead.
     await (TezosNode_getAccountForBlock node network (hash blockHead) (publicKeyHash keyStore))
       (\<lambda>account.
     (let transaction = JObject
            [(''destination'', JString to),
             (''amount'', JString (Number_toString amount)),
             (''storage_limit'', JString ''0''),
             (''gas_limit'', JString ''120''),
             (''counter'', JString (Number_toString (counter account + 1))),
             (''fee'', JString (Number_toString fee)),
             (''source'', JString (publicKeyHash keyStore)),
             (''kind'', JString ''transaction''),
             (''parameters'', JObject [(''prim'', JString ''Unit''), (''args'', JArray [])])];
          operations = [transaction]
      in sendOperation node so cu network operations keyStore)))"

definition sendDelegationOperation ::
  "TezosNode \<Rightarrow> sodium \<Rightarrow> CryptoUtils \<Rightarrow> string \<Rightarrow> KeyStore \<Rightarrow> string \<Rightarrow> int \<Rightarrow>
   OperationResult promise" where
  "sendDelegationOperation node so cu network keyStore delegate fee =
     await (TezosNode_getBlockHead node network) (\<lambda>blockHead.
     await (TezosNode_getAccountForBlock node network (hash blockHead) (publicKeyHash keyStore))
       (\<lambda>account.
     (let delegation = JObject
            [(''kind'', JString ''delegation''),
             (''source'', JString (publicKeyHash keyStore)),
             (''fee'', JString (Number_toString fee)),
             (''counter'', JString (Number_toString (counter account + 1))),
             (''storage_limit'', JString ''0''),
             (''gas_limit'', JString ''120''),
             (''delegate'', JString delegate)];
          operations = [delegation]
      in sendOperation node so cu network operations keyStore)))"

definition sendOriginationOperation ::
  "TezosNode \<Rightarrow> sodium \<Rightarrow> CryptoUtils \<Rightarrow> string \<Rightarrow> KeyStore \<Rightarrow> int \<Rightarrow> string \<Rightarrow> bool \<Rightarrow>
   bool \<Rightarrow> int \<Rightarrow> OperationResult promise" where
  "sendOriginationOperation node so cu network keyStore amount delegate spendable delegatable
     fee =
     await (TezosNode_getBlockHead node network) (\<lambda>blockHead.
     await (TezosNode_getAccountForBlock node network (hash blockHead) (publicKeyHash keyStore))
       (\<lambda>account.
     (let origination = JObject
            [(''kind'', JString ''origination''),
             (''source'', JString (publicKeyHash keyStore)),
             (''fee'', JString (Number_toString fee)),
             (''counter'', JString (Number_toString (counter account + 1))),
             (''gas_limit'', JString ''120''),
             (''storage_limit'', JString ''0''),
             (''managerPubkey'', JString (publicKeyHash keyStore)),
             (''balance'', JString (Number_toString amount)),
             (''spendable'', JBool spendable),
             (''delegatable'', JBool delegatable),
             (''delegate'', JString delegate)];
          operations = [origination]
      in sendOperation node so cu network operations keyStore)))"

definition isManagerKeyRevealedForAccount ::
  "TezosNode \<Rightarrow> string \<Rightarrow> KeyStore \<Rightarrow> bool promise" where
  "isManagerKeyRevealedForAccount node network keyStore =
     await (TezosNode_getBlockHead node network) (\<lambda>blockHead.
     await (TezosNode_getAccountManagerForBlock node network (hash blockHead)
              (publicKeyHash keyStore)) (\<lambda>managerKey.
     resolve (key managerKey \<noteq> Undefined \<and> key managerKey \<noteq> Null)))"

definition sendKeyRevealOperation ::
  "TezosNode \<Rightarrow> sodium \<Rightarrow> CryptoUtils \<Rightarrow> string \<Rightarrow> KeyStore \<Rightarrow> int \<Rightarrow>
   OperationResult promise" where
  "sendKeyRevealOperation node so cu network keyStore fee =
     await (TezosNode_getBlockHead node network) (\<lambda>blockHead.
     await (TezosNode_getAccountForBlock node network (hash blockHead) (publicKeyHash keyStore))
       (\<lambda>account.
     (let revealOp = JObject
            [(''kind'', JString ''reveal''),
             (''source'', JString (publicKeyHash keyStore)),
             (''fee'', JString (Number_toString fee)),
             (''counter'', JString (Number_toString (counter account + 1))),
             (''gas_limit'', JString ''120''),
             (''storage_limit'', JString ''0''),
             (''public_key'', JString (publicKey keyStore))];
          operations = [revealOp]
      in sendOperation node so cu network operations keyStore)))"

definition sendIdentityActivationOperation ::
  "TezosNode \<Rightarrow> sodium \<Rightarrow> CryptoUtils \<Rightarrow> string \<Rightarrow> KeyStore \<Rightarrow> string \<Rightarrow>
   OperationResult promise" where
  "sendIdentityActivationOperation node so cu network keyStore activationCode =
     (let activation = JObject
            [(''kind'', JString ''activate_account''),
             (''pkh'', JString (publicKeyHash keyStore)),
             (''secret'', JString activationCode)];
          operations = [activation]
      in sendOperation node so cu network operations keyStore)"

section \<open>\<open>TezosWallet\<close>\<close>

text \<open>
  Modelled from the spec: the types \<open>Wallet\<close> and \<open>EncryptedWalletVersionOne\<close> are declared
  in \<open>types/Wallet\<close>, which is not among the source files; section 3 of the
  specification gives their fields.
\<close>

record Wallet =
  identities :: "KeyStore list"

record EncryptedWalletVersionOne =
  version :: string
  salt :: string
  ciphertext :: string
  kdf :: string

text \<open>
  \<open>JSON.stringify\<close> and \<open>JSON.parse\<close> belong to the language: they are parameters, one pair
  for each of the two types the wallet serialises. \<open>JSON.parse\<close> throws on a text it does
  not accept.
\<close>

record JSON =
  stringify_identities :: "KeyStore list \<Rightarrow> string"
  parse_identities :: "string \<Rightarrow> js_error + KeyStore list"
  stringify_wallet :: "EncryptedWalletVersionOne \<Rightarrow> string"
  parse_wallet :: "string \<Rightarrow> js_error + EncryptedWalletVersionOne"

text \<open>
  The file system holds the text of each file. \<open>fsPromises.writeFile\<close> replaces the
  content of a file and is rejected for a path that cannot be written;
  \<open>fsPromises.readFile\<close> is rejected for a file that does not exist.
\<close>

record filesystem =
  files :: "string \<rightharpoonup> string"
  read_only :: "string \<Rightarrow> bool"

definition writeFile :: "filesystem \<Rightarrow> string \<Rightarrow> string \<Rightarrow> js_error + filesystem" where
  "writeFile fs filename data =
     (if read_only fs filename then Inl (Error ''EACCES'')
      else Inr (fs\<lparr>files := (files fs)(filename \<mapsto> data)\<rparr>))"

definition readFile :: "filesystem \<Rightarrow> string \<Rightarrow> js_error + string" where
  "readFile fs filename =
     (case files fs filename of None \<Rightarrow> Inl (Error ''ENOENT'') | Some data \<Rightarrow> Inr data)"

definition loadWallet ::
  "JSON \<Rightarrow> CryptoUtils \<Rightarrow> filesystem \<Rightarrow> string \<Rightarrow> string \<Rightarrow> js_error + Wallet" where
  "loadWallet J cu fs filename passphrase =
     (case readFile fs filename of
        Inl e \<Rightarrow> Inl e
      | Inr data \<Rightarrow>
     (case parse_wallet J data of
        Inl e \<Rightarrow> Inl e
      | Inr encryptedWallet \<Rightarrow>
     (case base58CheckDecode cu (ciphertext encryptedWallet) [] of
        Inl e \<Rightarrow> Inl e
      | Inr encryptedKeys \<Rightarrow>
     (case base58CheckDecode cu (salt encryptedWallet) [] of
        Inl e \<Rightarrow> Inl e
      | Inr saltBytes \<Rightarrow>
     (case decryptMessage cu encryptedKeys passphrase saltBytes of
        Inl e \<Rightarrow> Inl e
      | Inr plaintext \<Rightarrow>
     (case parse_identities J plaintext of
        Inl e \<Rightarrow> Inl e
      | Inr keys \<Rightarrow> Inr \<lparr>identities = keys\<rparr>))))))"

text \<open>
  \<open>saveWallet\<close> takes the salt that \<open>generateSaltForPwHash\<close> returned in this run, and
  returns the file system after the write beside its result.
\<close>

definition saveWallet ::
  "JSON \<Rightarrow> CryptoUtils \<Rightarrow> buffer \<Rightarrow> filesystem \<Rightarrow> string \<Rightarrow> Wallet \<Rightarrow> string \<Rightarrow>
   (js_error + Wallet) \<times> filesystem" where
  "saveWallet J cu freshSalt fs filename wallet passphrase =
     (let keys = stringify_identities J (identities wallet);
          encryptedKeys = encryptMessage cu keys passphrase freshSalt;
          encryptedWallet =
            \<lparr>version = ''1'',
             salt = base58CheckEncode cu freshSalt [],
             ciphertext = base58CheckEncode cu encryptedKeys [],
             kdf = ''Argon2''\<rparr>
      in case writeFile fs filename (stringify_wallet J encryptedWallet) of
           Inl e \<Rightarrow> (Inl e, fs)
         | Inr fs' \<Rightarrow> (loadWallet J cu fs' filename passphrase, fs'))"

definition createWallet ::
  "JSON \<Rightarrow> CryptoUtils \<Rightarrow> buffer \<Rightarrow> filesystem \<Rightarrow> string \<Rightarrow> string \<Rightarrow>
   (js_error + Wallet) \<times> filesystem" where
  "createWallet J cu freshSalt fs filename password =
     (let wallet = \<lparr>identities = []\<rparr> in
      case saveWallet J cu freshSalt fs filename wallet password of
        (Inl e, fs') \<Rightarrow> (Inl e, fs')
      | (Inr _, fs') \<Rightarrow> (Inr wallet, fs'))"

definition unlockFundraiserIdentity ::
  "CryptoUtils \<Rightarrow> string \<Rightarrow> string \<Rightarrow> string \<Rightarrow> js_error + KeyStore" where
  "unlockFundraiserIdentity cu mnemonic email password =
     (let passphrase = email @ password in
      getKeysFromMnemonicAndPassphrase cu mnemonic passphrase)"

definition unlockIdentityWithMnemonic ::
  "CryptoUtils \<Rightarrow> string \<Rightarrow> string \<Rightarrow> js_error + KeyStore" where
  "unlockIdentityWithMnemonic cu mnemonic passphrase =
     getKeysFromMnemonicAndPassphrase cu mnemonic passphrase"

section \<open>The contracts of the collaborators\<close>

text \<open>
  Modelled from the spec: \<open>base58CheckEncode\<close> and \<open>base58CheckDecode\<close> of \<open>CryptoUtils\<close>
  are not among the source files. Section 8 of the specification: for all byte sequences
  and fixed prefix tags, \<open>decode(encode(b, p), p) == b\<close>.
\<close>

definition base58Check_round_trip :: "CryptoUtils \<Rightarrow> bool" where
  "base58Check_round_trip cu \<longleftrightarrow>
     (\<forall>b p. base58CheckDecode cu (base58CheckEncode cu b p) p = Inr b)"

text \<open>
  Modelled from the spec: \<open>encryptMessage\<close> and \<open>decryptMessage\<close> of \<open>CryptoUtils\<close> are not
  among the source files. Sections 4.5 and 6 of the specification: \<open>decrypt\<close> derives the
  same key from the password and the salt and gives the plaintext back.
\<close>

definition decrypt_inverts_encrypt :: "CryptoUtils \<Rightarrow> bool" where
  "decrypt_inverts_encrypt cu \<longleftrightarrow>
     (\<forall>m p s. decryptMessage cu (encryptMessage cu m p s) p s = Inr m)"

text \<open>
  Modelled from the spec: \<open>decryptMessage\<close> of \<open>CryptoUtils\<close> is not among the source files.
  Sections 3 and 4.5 of the specification: decryption is authenticated, a ciphertext opens
  only under the passphrase it was made with, and a wrong password raises a decryption
  error.
\<close>

definition decrypt_authenticated :: "CryptoUtils \<Rightarrow> bool" where
  "decrypt_authenticated cu \<longleftrightarrow>
     (\<forall>m p q s. q \<noteq> p \<longrightarrow> (\<exists>e. decryptMessage cu (encryptMessage cu m p s) q s = Inl e))"

text \<open>\<open>JSON.parse\<close> reads back what \<open>JSON.stringify\<close> wrote.\<close>

definition JSON_round_trip :: "JSON \<Rightarrow> bool" where
  "JSON_round_trip J \<longleftrightarrow>
     (\<forall>ks. parse_identities J (stringify_identities J ks) = Inr ks) \<and>
     (\<forall>w. parse_wallet J (stringify_wallet J w) = Inr w)"

text \<open>The set of kinds as the specification lists it.\<close>

definition allowed_kinds :: "string set" where
  "allowed_kinds =
     {''activate_account'', ''reveal'', ''transaction'', ''origination'', ''delegation''}"

text \<open>The calls of a log that inject, and those that fetch an account.\<close>

definition is_inject :: "rpc_call \<Rightarrow> bool" where
  "is_inject c = (case c of InjectOperation _ _ \<Rightarrow> True | _ \<Rightarrow> False)"

definition is_account_fetch :: "rpc_call \<Rightarrow> bool" where
  "is_account_fetch c = (case c of GetAccountForBlock _ _ _ \<Rightarrow> True | _ \<Rightarrow> False)"

section \<open>A concrete node and concrete collaborators\<close>

text \<open>
  The theorems below hold for every node and every collaborator. To see that their
  hypotheses can be met, they are also run on the instances of this section: a node with
  fixed answers, a toy hash and signature, and toy codecs that frame each string (every
  character is preceded by \<open>c\<close>, every string is closed by \<open>n\<close>).
\<close>

fun frame_string :: "string \<Rightarrow> string" where
  "frame_string [] = ''n''"
| "frame_string (c # cs) = CHR ''c'' # c # frame_string cs"

fun frame :: "string list \<Rightarrow> string" where
  "frame [] = []"
| "frame (x # xs) = frame_string x @ frame xs"

fun unframe :: "string \<Rightarrow> string \<Rightarrow> string list option" where
  "unframe cur [] = (if cur = [] then Some [] else None)"
| "unframe cur [m] = (if m = CHR ''n'' then Some [cur] else None)"
| "unframe cur (m # c # rest) =
     (if m = CHR ''n'' then map_option (Cons cur) (unframe [] (c # rest))
      else if m = CHR ''c'' then unframe (cur @ [c]) rest
      else None)"

fun keystores :: "string list \<Rightarrow> KeyStore list option" where
  "keystores [] = Some []"
| "keystores (a # b # c # rest) =
     map_option (Cons \<lparr>publicKey = a, privateKey = b, publicKeyHash = c\<rparr>) (keystores rest)"
| "keystores _ = None"

definition byte_of_char :: "char \<Rightarrow> 8 word" where
  "byte_of_char c = of_nat (of_char c)"

definition char_of_byte :: "8 word \<Rightarrow> char" where
  "char_of_byte b = char_of (unat b)"

definition example_JSON :: JSON where
  "example_JSON =
     \<lparr>stringify_identities =
        (\<lambda>ks. frame (concat (map (\<lambda>k. [publicKey k, privateKey k, publicKeyHash k]) ks))),
      parse_identities =
        (\<lambda>s. case unframe [] s of
                None \<Rightarrow> Inl (Error ''SyntaxError'')
              | Some xs \<Rightarrow>
                  (case keystores xs of
                     None \<Rightarrow> Inl (Error ''SyntaxError'')
                   | Some ks \<Rightarrow> Inr ks)),
      stringify_wallet = (\<lambda>w. frame [version w, salt w, ciphertext w, kdf w]),
      parse_wallet =
        (\<lambda>s. case unframe [] s of
                Some [v, sa, c, k] \<Rightarrow> Inr \<lparr>version = v, salt = sa, ciphertext = c, kdf = k\<rparr>
              | _ \<Rightarrow> Inl (Error ''SyntaxError''))\<rparr>"

definition example_CryptoUtils :: CryptoUtils where
  "example_CryptoUtils =
     \<lparr>base58CheckEncode = (\<lambda>b p. p @ to_hex b),
      base58CheckDecode =
        (\<lambda>s p. if take (length p) s = p then from_hex (drop (length p) s)
               else Inl (Error ''invalid prefix'')),
      encryptMessage = (\<lambda>m p s. map byte_of_char (frame [p, to_hex s, m])),
      decryptMessage =
        (\<lambda>c q s. case unframe [] (map char_of_byte c) of
                    Some [p, s', m] \<Rightarrow>
                      if p = q \<and> s' = to_hex s then Inr m
                      else Inl (Error ''wrong secret key for the given ciphertext'')
                  | _ \<Rightarrow> Inl (Error ''invalid ciphertext'')),
      getKeysFromMnemonicAndPassphrase =
        (\<lambda>m p. Inr \<lparr>publicKey = ''edpk'' @ m, privateKey = ''edsk'' @ to_hex (map byte_of_char p),
                     publicKeyHash = ''tz1'' @ m\<rparr>)\<rparr>"

definition example_sodium :: sodium where
  "example_sodium =
     \<lparr>crypto_generichash = (\<lambda>n bs. take n (rev bs)),
      crypto_sign_detached =
        (\<lambda>h k. if k = [] then Inl (Error ''invalid privateKey length'') else Inr (k @ h))\<rparr>"

definition example_keyStore :: KeyStore where
  "example_keyStore =
     \<lparr>publicKey = ''edpkSender'', privateKey = ''edsk0a0b'', publicKeyHash = ''tz1Sender''\<rparr>"

definition example_head :: BlockMetadata where
  "example_head =
     \<lparr>protocol = ''PsProto'', chain_id = ''NetChain'', hash = ''BLockHead'',
      metadata =
        \<lparr>level = 7, proto = 1, predecessor = ''BLockPred'', timestamp = ''2018-07-01'',
         validation_pass = 4, operations_hash = ''LLoo'', fitness = [''00'', ''07''],
         header_context = ''CoCtx'', priority = 0, proof_of_work_nonce = ''00ff'',
         header_signature = ''sigHead''\<rparr>\<rparr>"

definition example_account :: Account where
  "example_account =
     \<lparr>manager = ''tz1Sender'', balance = 5000, account_spendable = True,
      account_delegate = \<lparr>setable = False, delegate_value = []\<rparr>, script = [],
      counter = 41\<rparr>"

definition example_applied :: AlphaOperationsWithMetadata where
  "example_applied =
     \<lparr>applied_contents =
        Defined [\<lparr>content_kind = Defined ''transaction'', content_id = Undefined,
                  content_metadata =
                    Defined \<lparr>status = ''applied'', originated_contracts = [], errors = []\<rparr>\<rparr>],
      applied_signature = Defined ''edsigExample'', applied_kind = Undefined,
      applied_id = Undefined, applied_contract = Undefined\<rparr>"

definition example_rejected :: AlphaOperationsWithMetadata where
  "example_rejected =
     \<lparr>applied_contents = Undefined, applied_signature = Undefined,
      applied_kind = Defined ''temporary'',
      applied_id = Defined ''proto.alpha.contract.counter_in_the_past'',
      applied_contract = Defined ''tz1Sender''\<rparr>"

definition example_failed_content :: AlphaOperationsWithMetadata where
  "example_failed_content =
     \<lparr>applied_contents =
        Defined [\<lparr>content_kind = Defined ''transaction'', content_id = Undefined,
                  content_metadata = Undefined\<rparr>,
                 \<lparr>content_kind = Defined ''endorsement'', content_id = Defined ''proto.unexpected'',
                  content_metadata = Undefined\<rparr>],
      applied_signature = Undefined, applied_kind = Undefined,
      applied_id = Undefined, applied_contract = Undefined\<rparr>"

definition example_node :: TezosNode where
  "example_node =
     \<lparr>node_getBlockHead = (\<lambda>log network. Inr example_head),
      node_getAccountForBlock = (\<lambda>log network blockHash accountID. Inr example_account),
      node_getAccountManagerForBlock =
        (\<lambda>log network blockHash accountID. Inr \<lparr>key_manager = ''tz1Sender'', key = Null\<rparr>),
      node_forgeOperation = (\<lambda>log network payload. Inr ''a1b2''),
      node_applyOperation = (\<lambda>log network payload. Inr [example_applied]),
      node_injectOperation = (\<lambda>log network payload. Inr ''ooGroup'')\<rparr>"

definition rejecting_node :: TezosNode where
  "rejecting_node =
     example_node\<lparr>node_applyOperation := (\<lambda>log network payload. Inr [example_rejected])\<rparr>"

definition example_filesystem :: filesystem where
  "example_filesystem = \<lparr>files = Map.empty, read_only = (\<lambda>filename. False)\<rparr>"

definition example_transaction :: json where
  "example_transaction = JObject
     [(''destination'', JString ''tz1Receiver''),
      (''amount'', JString ''1000''),
      (''storage_limit'', JString ''0''),
      (''gas_limit'', JString ''120''),
      (''counter'', JString ''42''),
      (''fee'', JString ''100''),
      (''source'', JString ''tz1Sender''),
      (''kind'', JString ''transaction''),
      (''parameters'', JObject [(''prim'', JString ''Unit''), (''args'', JArray [])])]"

definition example_wallet :: Wallet where
  "example_wallet = \<lparr>identities = [example_keyStore]\<rparr>"



fun kind_of :: "json \<Rightarrow> string option" where
  "kind_of (JObject properties) =
     (case map_of properties ''kind'' of Some (JString k) \<Rightarrow> Some k | _ \<Rightarrow> None)"
| "kind_of _ = None"

section \<open>Facts about the building blocks\<close>

subsection \<open>Hexadecimal text\<close>

lemma hex_value_hex_digit:
  assumes "d < 16"
  shows "hex_value (hex_digit d) = Some d"
proof -
  from assms have "d \<in> set [0..<16]" by simp
  also have "[0..<16] = [0, 1, 2, 3, 4, 5, 6, 7, 8, 9, 10, 11, 12, 13, 14, 15::nat]"
    by (simp add: upt_rec)
  finally show ?thesis
    by (auto simp: hex_value_def hex_digit_def)
qed

lemma from_hex_to_hex: "from_hex (to_hex bs) = Inr bs"
proof (induction bs)
  case Nil
  show ?case by simp
next
  case (Cons b bs)
  have "unat b < 256" using unsigned_less [of b, where 'a = nat] by simp
  then have d: "unat b div 16 < 16" by simp
  have m: "unat b mod 16 < 16" by simp
  have "(of_nat (16 * (unat b div 16) + unat b mod 16) :: 8 word) = b"
    by simp
  with Cons d m show ?case
    by (simp add: hex_value_hex_digit)
qed

text \<open>The watermark \<open>03\<close> in front of the hexadecimal text is the byte 3 in front of the bytes.\<close>

lemma from_hex_watermark:
  "from_hex (CHR ''0'' # CHR ''3'' # s) =
     (case from_hex s of Inl e \<Rightarrow> Inl e | Inr bs \<Rightarrow> Inr (3 # bs))"
  by (simp add: hex_value_def split: sum.splits)

subsection \<open>Signing\<close>

lemma signOperationGroup_Inr:
  assumes "signOperationGroup so cu forgedOperation keyStore = Inr signedOpGroup"
  shows "\<exists>forgedBytes privateKeyBytes opSignature.
           from_hex forgedOperation = Inr forgedBytes \<and>
           base58CheckDecode cu (privateKey keyStore) ''edsk'' = Inr privateKeyBytes \<and>
           crypto_sign_detached so (crypto_generichash so 32 (3 # forgedBytes)) privateKeyBytes
             = Inr opSignature \<and>
           signedOpGroup = \<lparr>bytes = forgedBytes @ opSignature,
                            signature = base58CheckEncode cu opSignature ''edsig''\<rparr>"
  using assms
  by (auto simp add: signOperationGroup_def from_hex_watermark simp del: from_hex.simps
      split: sum.splits)

subsection \<open>The validator\<close>

lemma validAppliedKinds_has_iff: "validAppliedKinds_has k \<longleftrightarrow> k \<in> Defined ` allowed_kinds"
  by (cases k) (auto simp: validAppliedKinds_has_def validAppliedKinds_def allowed_kinds_def)



lemma check_contents_result:
  "check_contents cs = Inr () \<or> (\<exists>i. check_contents cs = Inl (could_not_apply i))"
  by (induction cs) auto

subsection \<open>The steps of \<open>sendOperation\<close>, with the log of calls after each\<close>

lemma sendOperation_unfold:
  "sendOperation node so cu network operations keyStore log =
     (case node_getBlockHead node log network of
        Inl e \<Rightarrow> (Inl e, log @ [GetBlockHead network])
      | Inr blockHead \<Rightarrow>
     (let forge = ForgeOperation network \<lparr>forge_branch = hash blockHead, forge_contents = operations\<rparr>;
          log1 = log @ [GetBlockHead network] in
      case node_forgeOperation node log1 network
             \<lparr>forge_branch = hash blockHead, forge_contents = operations\<rparr> of
        Inl e \<Rightarrow> (Inl e, log1 @ [forge])
      | Inr forged \<Rightarrow>
     (case signOperationGroup so cu forged keyStore of
        Inl e \<Rightarrow> (Inl e, log1 @ [forge])
      | Inr signedOpGroup \<Rightarrow>
     (let payload = [\<lparr>apply_protocol = protocol blockHead, apply_branch = hash blockHead,
                      apply_contents = operations, apply_signature = signature signedOpGroup\<rparr>];
          log2 = log1 @ [forge] in
      case node_applyOperation node log2 network payload of
        Inl e \<Rightarrow> (Inl e, log2 @ [ApplyOperation network payload])
      | Inr appliedOp \<Rightarrow>
     (case checkAppliedOperationResults appliedOp of
        Inl e \<Rightarrow> (Inl e, log2 @ [ApplyOperation network payload])
      | Inr _ \<Rightarrow>
     (let log3 = log2 @ [ApplyOperation network payload];
          inject = InjectOperation network (to_hex (bytes signedOpGroup)) in
      case node_injectOperation node log3 network (to_hex (bytes signedOpGroup)) of
        Inl e \<Rightarrow> (Inl e, log3 @ [inject])
      | Inr injectedOperation \<Rightarrow>
          (Inr \<lparr>results = first_element appliedOp, operationGroupID = injectedOperation\<rparr>,
           log3 @ [inject])))))))"
  by (simp add: sendOperation_def await_def sync_def resolve_def TezosNode_getBlockHead_def
      forgeOperations_def TezosNode_forgeOperation_def applyOperation_def
      TezosNode_applyOperation_def injectOperation_def TezosNode_injectOperation_def Let_def
      split: sum.splits)

lemma sendOperation_log:
  "\<exists>calls. snd (sendOperation node so cu network operations keyStore log)
             = log @ GetBlockHead network # calls
           \<and> filter is_account_fetch calls = []"
  by (simp add: sendOperation_unfold is_account_fetch_def Let_def split: sum.splits)

subsection \<open>Decimal numerals\<close>








subsection \<open>The wrappers, once the head and the account are fetched\<close>

lemma sendTransactionOperation_unfold:
  assumes "node_getBlockHead node log network = Inr blockHead"
    and "node_getAccountForBlock node (log @ [GetBlockHead network]) network (hash blockHead)
           (publicKeyHash keyStore) = Inr account"
  shows "sendTransactionOperation node so cu network keyStore to amount fee log =
     sendOperation node so cu network
       [JObject
          [(''destination'', JString to),
           (''amount'', JString (Number_toString amount)),
           (''storage_limit'', JString ''0''),
           (''gas_limit'', JString ''120''),
           (''counter'', JString (Number_toString (counter account + 1))),
           (''fee'', JString (Number_toString fee)),
           (''source'', JString (publicKeyHash keyStore)),
           (''kind'', JString ''transaction''),
           (''parameters'', JObject [(''prim'', JString ''Unit''), (''args'', JArray [])])]]
       keyStore
       (log @ [GetBlockHead network,
               GetAccountForBlock network (hash blockHead) (publicKeyHash keyStore)])"
  using assms
  by (simp add: sendTransactionOperation_def await_def TezosNode_getBlockHead_def
      TezosNode_getAccountForBlock_def Let_def)

lemma sendDelegationOperation_unfold:
  assumes "node_getBlockHead node log network = Inr blockHead"
    and "node_getAccountForBlock node (log @ [GetBlockHead network]) network (hash blockHead)
           (publicKeyHash keyStore) = Inr account"
  shows "sendDelegationOperation node so cu network keyStore delegate fee log =
     sendOperation node so cu network
       [JObject
          [(''kind'', JString ''delegation''),
           (''source'', JString (publicKeyHash keyStore)),
           (''fee'', JString (Number_toString fee)),
           (''counter'', JString (Number_toString (counter account + 1))),
           (''storage_limit'', JString ''0''),
           (''gas_limit'', JString ''120''),
           (''delegate'', JString delegate)]]
       keyStore
       (log @ [GetBlockHead network,
               GetAccountForBlock network (hash blockHead) (publicKeyHash keyStore)])"
  using assms
  by (simp add: sendDelegationOperation_def await_def TezosNode_getBlockHead_def
      TezosNode_getAccountForBlock_def Let_def)

lemma sendOriginationOperation_unfold:
  assumes "node_getBlockHead node log network = Inr blockHead"
    and "node_getAccountForBlock node (log @ [GetBlockHead network]) network (hash blockHead)
           (publicKeyHash keyStore) = Inr account"
  shows "sendOriginationOperation node so cu network keyStore amount delegate spendable
           delegatable fee log =
     sendOperation node so cu network
       [JObject
          [(''kind'', JString ''origination''),
           (''source'', JString (publicKeyHash keyStore)),
           (''fee'', JString (Number_toString fee)),
           (''counter'', JString (Number_toString (counter account + 1))),
           (''gas_limit'', JString ''120''),
           (''storage_limit'', JString ''0''),
           (''managerPubkey'', JString (publicKeyHash keyStore)),
           (''balance'', JString (Number_toString amount)),
           (''spendable'', JBool spendable),
           (''delegatable'', JBool delegatable),
           (''delegate'', JString delegate)]]
       keyStore
       (log @ [GetBlockHead network,
               GetAccountForBlock network (hash blockHead) (publicKeyHash keyStore)])"
  using assms
  by (simp add: sendOriginationOperation_def await_def TezosNode_getBlockHead_def
      TezosNode_getAccountForBlock_def Let_def)

lemma sendKeyRevealOperation_unfold:
  assumes "node_getBlockHead node log network = Inr blockHead"
    and "node_getAccountForBlock node (log @ [GetBlockHead network]) network (hash blockHead)
           (publicKeyHash keyStore) = Inr account"
  shows "sendKeyRevealOperation node so cu network keyStore fee log =
     sendOperation node so cu network
       [JObject
          [(''kind'', JString ''reveal''),
           (''source'', JString (publicKeyHash keyStore)),
           (''fee'', JString (Number_toString fee)),
           (''counter'', JString (Number_toString (counter account + 1))),
           (''gas_limit'', JString ''120''),
           (''storage_limit'', JString ''0''),
           (''public_key'', JString (publicKey keyStore))]]
       keyStore
       (log @ [GetBlockHead network,
               GetAccountForBlock network (hash blockHead) (publicKeyHash keyStore)])"
  using assms
  by (simp add: sendKeyRevealOperation_def await_def TezosNode_getBlockHead_def
      TezosNode_getAccountForBlock_def Let_def)

lemma sendIdentityActivationOperation_unfold:
  "sendIdentityActivationOperation node so cu network keyStore activationCode log =
     sendOperation node so cu network
       [JObject
          [(''kind'', JString ''activate_account''),
           (''pkh'', JString (publicKeyHash keyStore)),
           (''secret'', JString activationCode)]]
       keyStore log"
  by (simp add: sendIdentityActivationOperation_def Let_def)

subsection \<open>The wallet file\<close>

lemma loadWallet_after_write:
  assumes "parse_wallet J data = Inr w"
  shows "loadWallet J cu (fs\<lparr>files := (files fs)(filename \<mapsto> data)\<rparr>) filename passphrase =
     (case base58CheckDecode cu (ciphertext w) [] of
        Inl e \<Rightarrow> Inl e
      | Inr encryptedKeys \<Rightarrow>
     (case base58CheckDecode cu (salt w) [] of
        Inl e \<Rightarrow> Inl e
      | Inr saltBytes \<Rightarrow>
     (case decryptMessage cu encryptedKeys passphrase saltBytes of
        Inl e \<Rightarrow> Inl e
      | Inr plaintext \<Rightarrow>
     (case parse_identities J plaintext of
        Inl e \<Rightarrow> Inl e
      | Inr keys \<Rightarrow> Inr \<lparr>identities = keys\<rparr>))))"
  using assms by (simp add: loadWallet_def readFile_def)

lemma saveWallet_writes:
  assumes "\<not> read_only fs filename"
  shows "saveWallet J cu freshSalt fs filename wallet passphrase =
     (let fs' = fs\<lparr>files := (files fs)(filename \<mapsto>
                 stringify_wallet J
                   \<lparr>version = ''1'',
                    salt = base58CheckEncode cu freshSalt [],
                    ciphertext = base58CheckEncode cu
                      (encryptMessage cu (stringify_identities J (identities wallet))
                         passphrase freshSalt) [],
                    kdf = ''Argon2''\<rparr>)\<rparr>
      in (loadWallet J cu fs' filename passphrase, fs'))"
  using assms by (simp add: saveWallet_def writeFile_def Let_def)

subsection \<open>The concrete collaborators meet their contracts\<close>

lemma unframe_frame_string:
  "unframe cur (frame_string x @ t) = map_option (Cons (cur @ x)) (unframe [] t)"
proof (induction x arbitrary: cur)
  case Nil
  show ?case by (cases t) simp_all
next
  case (Cons a x)
  then show ?case by simp
qed

lemma unframe_frame: "unframe [] (frame xs) = Some xs"
  by (induction xs) (simp_all add: unframe_frame_string)

lemma keystores_concat:
  "keystores (concat (map (\<lambda>k. [publicKey k, privateKey k, publicKeyHash k]) ks)) = Some ks"
  by (induction ks) simp_all

lemma char_of_byte_of_char: "char_of_byte (byte_of_char c) = c"
  by (simp add: char_of_byte_def byte_of_char_def unat_of_nat)

lemma map_char_of_byte: "map (char_of_byte \<circ> byte_of_char) s = s"
  by (induction s) (simp_all add: char_of_byte_of_char)

lemma example_JSON_round_trip: "JSON_round_trip example_JSON"
  by (simp add: JSON_round_trip_def example_JSON_def unframe_frame keystores_concat
      del: frame.simps)

lemma example_base58Check_round_trip: "base58Check_round_trip example_CryptoUtils"
  by (simp add: base58Check_round_trip_def example_CryptoUtils_def from_hex_to_hex)

lemma example_decrypt_inverts_encrypt: "decrypt_inverts_encrypt example_CryptoUtils"
  by (simp add: decrypt_inverts_encrypt_def example_CryptoUtils_def map_char_of_byte
      unframe_frame del: frame.simps)

lemma example_decrypt_authenticated: "decrypt_authenticated example_CryptoUtils"
  by (simp add: decrypt_authenticated_def example_CryptoUtils_def map_char_of_byte
      unframe_frame del: frame.simps)

lemma example_decrypt_wrong:
  "q \<noteq> p \<Longrightarrow>
   decryptMessage example_CryptoUtils (encryptMessage example_CryptoUtils m p s) q s
     = Inl (Error ''wrong secret key for the given ciphertext'')"
  by (simp add: example_CryptoUtils_def map_char_of_byte unframe_frame del: frame.simps)

lemma example_sign:
  "signOperationGroup example_sodium example_CryptoUtils ''a1b2'' example_keyStore =
     Inr \<lparr>bytes = [0xa1, 0xb2, 0x0a, 0x0b, 0xb2, 0xa1, 0x03], signature = ''edsig0a0bb2a103''\<rparr>"
  by (simp add: signOperationGroup_def example_sodium_def example_CryptoUtils_def
      example_keyStore_def hex_value_def hex_digit_def)

section \<open>The claims\<close>

text \<open>
  Claim C1. In every run of \<open>sendOperation\<close> that reaches the validation step (the block
  head was fetched, the node forged the operations, the signing succeeded, the node answered
  the apply request) and in which \<open>checkAppliedOperationResults\<close> throws on the answer, the
  promise is rejected with that very error, and the calls made to the node are the head
  request, the forge request and the apply request: no inject request is made.
\<close>

theorem sendOperation_rejected_never_injects:
  assumes "node_getBlockHead node log network = Inr blockHead"
    and "node_forgeOperation node (log @ [GetBlockHead network]) network
           \<lparr>forge_branch = hash blockHead, forge_contents = operations\<rparr> = Inr forged"
    and "signOperationGroup so cu forged keyStore = Inr signedOpGroup"
    and "node_applyOperation node
           (log @ [GetBlockHead network,
                   ForgeOperation network
                     \<lparr>forge_branch = hash blockHead, forge_contents = operations\<rparr>])
           network
           [\<lparr>apply_protocol = protocol blockHead, apply_branch = hash blockHead,
             apply_contents = operations, apply_signature = signature signedOpGroup\<rparr>]
         = Inr appliedOp"
    and "checkAppliedOperationResults appliedOp = Inl e"
  shows "sendOperation node so cu network operations keyStore log =
           (Inl e,
            log @ [GetBlockHead network,
                   ForgeOperation network
                     \<lparr>forge_branch = hash blockHead, forge_contents = operations\<rparr>,
                   ApplyOperation network
                     [\<lparr>apply_protocol = protocol blockHead, apply_branch = hash blockHead,
                       apply_contents = operations,
                       apply_signature = signature signedOpGroup\<rparr>]])
         \<and> filter is_inject (drop (length log)
              (snd (sendOperation node so cu network operations keyStore log))) = []"
  using assms by (simp add: sendOperation_unfold is_inject_def)

theorem sendOperation_rejected_never_injects_witness:
  "fst (sendOperation rejecting_node example_sodium example_CryptoUtils ''alphanet''
          [example_transaction] example_keyStore [])
     = Inl (Error ''Could not apply operation because: proto.alpha.contract.counter_in_the_past'')
   \<and> filter is_inject
       (snd (sendOperation rejecting_node example_sodium example_CryptoUtils ''alphanet''
          [example_transaction] example_keyStore [])) = []"
proof -
  have h1: "node_getBlockHead rejecting_node [] ''alphanet'' = Inr example_head"
    by (simp add: rejecting_node_def example_node_def)
  have h2: "node_forgeOperation rejecting_node ([] @ [GetBlockHead ''alphanet'']) ''alphanet''
           \<lparr>forge_branch = hash example_head, forge_contents = [example_transaction]\<rparr>
           = Inr ''a1b2''"
    by (simp add: rejecting_node_def example_node_def)
  have h4: "node_applyOperation rejecting_node
           ([] @ [GetBlockHead ''alphanet'',
                   ForgeOperation ''alphanet''
                     \<lparr>forge_branch = hash example_head, forge_contents = [example_transaction]\<rparr>])
           ''alphanet''
           [\<lparr>apply_protocol = protocol example_head, apply_branch = hash example_head,
             apply_contents = [example_transaction],
             apply_signature = signature \<lparr>bytes = [0xa1, 0xb2, 0x0a, 0x0b, 0xb2, 0xa1, 0x03],
                                           signature = ''edsig0a0bb2a103''\<rparr>\<rparr>]
         = Inr [example_rejected]"
    by (simp add: rejecting_node_def example_node_def)
  have h5: "checkAppliedOperationResults [example_rejected] =
      Inl (Error ''Could not apply operation because: proto.alpha.contract.counter_in_the_past'')"
    by (simp add: checkAppliedOperationResults_def example_rejected_def validAppliedKinds_has_def
        validAppliedKinds_def could_not_apply_def template_def)
  show ?thesis
    using sendOperation_rejected_never_injects [OF h1 h2 example_sign h4 h5]
    by (simp add: is_inject_def)
qed



text \<open>
  Claim C3. In every run of \<open>sendOperation\<close> that completes, the operations were forged
  once, and the payload of the one inject request is the hexadecimal text of the bytes of
  the signed operation group that \<open>signOperationGroup\<close> returned for the forged text: the
  forged bytes followed by the bytes of the detached signature. The calls made to the node
  are the head request, the forge request, the apply request and that inject request.
\<close>

theorem sendOperation_injects_signed_bytes:
  assumes "sendOperation node so cu network operations keyStore log = (Inr r, log')"
  shows "\<exists>blockHead forged forgedBytes privateKeyBytes opSignature signedOpGroup.
           node_getBlockHead node log network = Inr blockHead \<and>
           node_forgeOperation node (log @ [GetBlockHead network]) network
             \<lparr>forge_branch = hash blockHead, forge_contents = operations\<rparr> = Inr forged \<and>
           signOperationGroup so cu forged keyStore = Inr signedOpGroup \<and>
           from_hex forged = Inr forgedBytes \<and>
           base58CheckDecode cu (privateKey keyStore) ''edsk'' = Inr privateKeyBytes \<and>
           crypto_sign_detached so (crypto_generichash so 32 (3 # forgedBytes)) privateKeyBytes
             = Inr opSignature \<and>
           bytes signedOpGroup = forgedBytes @ opSignature \<and>
           log' = log @
             [GetBlockHead network,
              ForgeOperation network
                \<lparr>forge_branch = hash blockHead, forge_contents = operations\<rparr>,
              ApplyOperation network
                [\<lparr>apply_protocol = protocol blockHead, apply_branch = hash blockHead,
                  apply_contents = operations, apply_signature = signature signedOpGroup\<rparr>],
              InjectOperation network (to_hex (bytes signedOpGroup))]"
proof -
  from assms obtain blockHead forged signedOpGroup where
    head: "node_getBlockHead node log network = Inr blockHead" and
    forge: "node_forgeOperation node (log @ [GetBlockHead network]) network
             \<lparr>forge_branch = hash blockHead, forge_contents = operations\<rparr> = Inr forged" and
    sign: "signOperationGroup so cu forged keyStore = Inr signedOpGroup" and
    log': "log' = log @
             [GetBlockHead network,
              ForgeOperation network
                \<lparr>forge_branch = hash blockHead, forge_contents = operations\<rparr>,
              ApplyOperation network
                [\<lparr>apply_protocol = protocol blockHead, apply_branch = hash blockHead,
                  apply_contents = operations, apply_signature = signature signedOpGroup\<rparr>],
              InjectOperation network (to_hex (bytes signedOpGroup))]"
    by (auto simp add: sendOperation_unfold Let_def split: sum.splits)
  from signOperationGroup_Inr [OF sign] obtain forgedBytes privateKeyBytes opSignature where
    "from_hex forged = Inr forgedBytes"
    "base58CheckDecode cu (privateKey keyStore) ''edsk'' = Inr privateKeyBytes"
    "crypto_sign_detached so (crypto_generichash so 32 (3 # forgedBytes)) privateKeyBytes
       = Inr opSignature"
    "signedOpGroup = \<lparr>bytes = forgedBytes @ opSignature,
                      signature = base58CheckEncode cu opSignature ''edsig''\<rparr>"
    by blast
  with head forge sign log' show ?thesis by auto
qed

theorem sendOperation_injects_signed_bytes_witness:
  "sendOperation example_node example_sodium example_CryptoUtils ''alphanet''
          [example_transaction] example_keyStore []
     = (Inr \<lparr>results = Defined example_applied, operationGroupID = ''ooGroup''\<rparr>,
        [GetBlockHead ''alphanet'',
         ForgeOperation ''alphanet''
           \<lparr>forge_branch = ''BLockHead'', forge_contents = [example_transaction]\<rparr>,
         ApplyOperation ''alphanet''
           [\<lparr>apply_protocol = ''PsProto'', apply_branch = ''BLockHead'',
             apply_contents = [example_transaction], apply_signature = ''edsig0a0bb2a103''\<rparr>],
         InjectOperation ''alphanet'' (to_hex ([0xa1, 0xb2] @ [0x0a, 0x0b, 0xb2, 0xa1, 0x03]))])
   \<and> to_hex ([0xa1, 0xb2] @ [0x0a, 0x0b, 0xb2, 0xa1, 0x03]) = ''a1b20a0bb2a103''"
proof -
  have run: "sendOperation example_node example_sodium example_CryptoUtils ''alphanet''
          [example_transaction] example_keyStore []
     = (Inr \<lparr>results = Defined example_applied, operationGroupID = ''ooGroup''\<rparr>,
        [GetBlockHead ''alphanet'',
         ForgeOperation ''alphanet''
           \<lparr>forge_branch = ''BLockHead'', forge_contents = [example_transaction]\<rparr>,
         ApplyOperation ''alphanet''
           [\<lparr>apply_protocol = ''PsProto'', apply_branch = ''BLockHead'',
             apply_contents = [example_transaction], apply_signature = ''edsig0a0bb2a103''\<rparr>],
         InjectOperation ''alphanet'' ''a1b20a0bb2a103''])"
    by (simp add: sendOperation_unfold example_sign example_node_def example_head_def
        checkAppliedOperationResults_def example_applied_def validAppliedKinds_has_def
        validAppliedKinds_def first_element_def hex_digit_def)
  from sendOperation_injects_signed_bytes [OF run] show ?thesis
    using run by (simp add: hex_digit_def)
qed





text \<open>
  Claim C6. Let \<open>JSON.parse\<close> read back what \<open>JSON.stringify\<close> wrote, let the base58check
  decoding invert the encoding, let decryption under the same passphrase and salt invert
  encryption, and let the file be writable. Then \<open>createWallet\<close> returns the empty wallet,
  and a following \<open>saveWallet\<close> of any wallet under a passphrase and a fresh salt
  \<^item> leaves in the file the text of the record with version \<open>1\<close>, the encoded salt, the
    encoded encryption of the serialised identities under the passphrase and the salt, and
    kdf \<open>Argon2\<close>;
  \<^item> returns what \<open>loadWallet\<close> returns on the written file with the same passphrase;
  \<^item> and that is the wallet with the original list of identities.
\<close>

theorem saveWallet_round_trip:
  assumes json: "JSON_round_trip J"
    and b58: "base58Check_round_trip cu"
    and dec: "decrypt_inverts_encrypt cu"
    and writable: "\<not> read_only fs filename"
  shows "\<exists>fs1 fs2.
           createWallet J cu salt0 fs filename password0 = (Inr \<lparr>identities = []\<rparr>, fs1) \<and>
           files fs2 filename = Some (stringify_wallet J
              \<lparr>version = ''1'',
               salt = base58CheckEncode cu freshSalt [],
               ciphertext = base58CheckEncode cu
                 (encryptMessage cu (stringify_identities J (identities wallet))
                    passphrase freshSalt) [],
               kdf = ''Argon2''\<rparr>) \<and>
           saveWallet J cu freshSalt fs1 filename wallet passphrase =
             (loadWallet J cu fs2 filename passphrase, fs2) \<and>
           loadWallet J cu fs2 filename passphrase = Inr \<lparr>identities = identities wallet\<rparr>"
proof -
  have load: "loadWallet J cu
      (g\<lparr>files := (files g)(filename \<mapsto>
                 stringify_wallet J
                   \<lparr>version = ''1'',
                    salt = base58CheckEncode cu s [],
                    ciphertext = base58CheckEncode cu
                      (encryptMessage cu (stringify_identities J ks) p s) [],
                    kdf = ''Argon2''\<rparr>)\<rparr>) filename p = Inr \<lparr>identities = ks\<rparr>"
    for g s ks p
  proof -
    have pw: "parse_wallet J (stringify_wallet J w) = Inr w" for w
      using json by (simp add: JSON_round_trip_def)
    show ?thesis
      using json b58 dec
      by (simp add: loadWallet_after_write [OF pw] JSON_round_trip_def
          base58Check_round_trip_def decrypt_inverts_encrypt_def)
  qed
  define fs1 where "fs1 = snd (createWallet J cu salt0 fs filename password0)"
  have create: "createWallet J cu salt0 fs filename password0 = (Inr \<lparr>identities = []\<rparr>, fs1)"
    and ro: "\<not> read_only fs1 filename"
    using writable load [of fs salt0 "[]" password0]
    by (simp_all add: fs1_def createWallet_def saveWallet_writes Let_def)
  show ?thesis
    using create load [of fs1 freshSalt "identities wallet" passphrase]
    by (simp add: saveWallet_writes [OF ro] Let_def)
qed

theorem saveWallet_round_trip_witness:
  "fst (saveWallet example_JSON example_CryptoUtils [3, 4]
          (snd (createWallet example_JSON example_CryptoUtils [1, 2] example_filesystem
                  ''wallet.json'' ''first''))
          ''wallet.json'' example_wallet ''hunter2'')
     = Inr example_wallet
   \<and> loadWallet example_JSON example_CryptoUtils
       (snd (saveWallet example_JSON example_CryptoUtils [3, 4]
          (snd (createWallet example_JSON example_CryptoUtils [1, 2] example_filesystem
                  ''wallet.json'' ''first''))
          ''wallet.json'' example_wallet ''hunter2''))
       ''wallet.json'' ''hunter2''
     = Inr example_wallet"
proof -
  have writable: "\<not> read_only example_filesystem ''wallet.json''"
    by (simp add: example_filesystem_def)
  from saveWallet_round_trip
         [OF example_JSON_round_trip example_base58Check_round_trip
             example_decrypt_inverts_encrypt writable,
          of "[1, 2]" "''first''" "[3, 4]" example_wallet "''hunter2''"]
  obtain fs1 fs2 where
    "createWallet example_JSON example_CryptoUtils [1, 2] example_filesystem
       ''wallet.json'' ''first'' = (Inr \<lparr>identities = []\<rparr>, fs1)"
    "saveWallet example_JSON example_CryptoUtils [3, 4] fs1 ''wallet.json'' example_wallet
       ''hunter2'' = (loadWallet example_JSON example_CryptoUtils fs2 ''wallet.json'' ''hunter2'', fs2)"
    "loadWallet example_JSON example_CryptoUtils fs2 ''wallet.json'' ''hunter2''
       = Inr \<lparr>identities = identities example_wallet\<rparr>"
    by blast
  then show ?thesis by simp
qed

text \<open>
  Claim C7. Let \<open>JSON.parse\<close> read back what \<open>JSON.stringify\<close> wrote, let the base58check
  decoding invert the encoding, let decryption be authenticated (it throws under any
  passphrase other than the one the ciphertext was made with), and let the file be
  writable. After \<open>saveWallet\<close> under the passphrase \<open>p\<close>, \<open>loadWallet\<close> with any other
  passphrase \<open>q\<close> is rejected with the very error that \<open>decryptMessage\<close> throws: it returns no
  wallet. The same holds for the file that \<open>createWallet\<close> writes under \<open>p\<close>.
\<close>

theorem loadWallet_wrong_passphrase:
  assumes json: "JSON_round_trip J"
    and b58: "base58Check_round_trip cu"
    and auth: "decrypt_authenticated cu"
    and writable: "\<not> read_only fs filename"
    and wrong: "q \<noteq> p"
  shows "(\<exists>e. decryptMessage cu
                (encryptMessage cu (stringify_identities J (identities wallet)) p freshSalt)
                q freshSalt = Inl e \<and>
              loadWallet J cu (snd (saveWallet J cu freshSalt fs filename wallet p)) filename q
                = Inl e)
       \<and> (\<exists>e. loadWallet J cu (snd (createWallet J cu freshSalt fs filename p)) filename q
                = Inl e)"
proof -
  have pw: "parse_wallet J (stringify_wallet J w) = Inr w" for w
    using json by (simp add: JSON_round_trip_def)
  have save: "\<exists>e. decryptMessage cu
                (encryptMessage cu (stringify_identities J (identities w)) p freshSalt)
                q freshSalt = Inl e \<and>
              loadWallet J cu (snd (saveWallet J cu freshSalt fs filename w p)) filename q
                = Inl e" for w
  proof -
    from auth wrong obtain e where
      e: "decryptMessage cu
            (encryptMessage cu (stringify_identities J (identities w)) p freshSalt)
            q freshSalt = Inl e"
      unfolding decrypt_authenticated_def by blast
    have "loadWallet J cu (snd (saveWallet J cu freshSalt fs filename w p)) filename q = Inl e"
      using b58 e
      by (simp add: saveWallet_writes [OF writable] Let_def loadWallet_after_write [OF pw]
          base58Check_round_trip_def)
    with e show ?thesis by blast
  qed
  have create: "snd (createWallet J cu freshSalt fs filename p)
      = snd (saveWallet J cu freshSalt fs filename \<lparr>identities = []\<rparr> p)"
    by (simp add: createWallet_def Let_def split: prod.splits sum.splits)
  from save [of wallet] save [of "\<lparr>identities = []\<rparr>"] show ?thesis
    unfolding create by blast
qed

theorem loadWallet_wrong_passphrase_witness:
  "loadWallet example_JSON example_CryptoUtils
     (snd (saveWallet example_JSON example_CryptoUtils [3, 4] example_filesystem
             ''wallet.json'' example_wallet ''hunter2''))
     ''wallet.json'' ''hunter3''
   = Inl (Error ''wrong secret key for the given ciphertext'')"
proof -
  have writable: "\<not> read_only example_filesystem ''wallet.json''"
    by (simp add: example_filesystem_def)
  have wrong: "''hunter3'' \<noteq> ''hunter2''"
    by simp
  from loadWallet_wrong_passphrase
         [OF example_JSON_round_trip example_base58Check_round_trip
             example_decrypt_authenticated writable wrong,
          of example_wallet "[3, 4]"]
  obtain e where
    "decryptMessage example_CryptoUtils
       (encryptMessage example_CryptoUtils
          (stringify_identities example_JSON (identities example_wallet)) ''hunter2'' [3, 4])
       ''hunter3'' [3, 4] = Inl e"
    "loadWallet example_JSON example_CryptoUtils
       (snd (saveWallet example_JSON example_CryptoUtils [3, 4] example_filesystem
               ''wallet.json'' example_wallet ''hunter2''))
       ''wallet.json'' ''hunter3'' = Inl e"
    by blast
  with example_decrypt_wrong [OF wrong] show ?thesis by simp
qed

text \<open>
  Claim C8, as stated, fails: the account is fetched by four of the five wrappers, not by
  three. The reveal wrapper needs a counter as well and fetches the account like the
  wrappers for a transaction, a delegation and an origination. On the concrete node the
  numbers of account requests of the five wrappers are 1, 1, 1, 1 and 0.
\<close>

theorem wrappers_account_fetch_counterexample:
  "map (\<lambda>run. length (filter is_account_fetch (snd (run []))))
     [sendTransactionOperation example_node example_sodium example_CryptoUtils ''alphanet''
        example_keyStore ''tz1Receiver'' 1000 100,
      sendDelegationOperation example_node example_sodium example_CryptoUtils ''alphanet''
        example_keyStore ''tz1Baker'' 100,
      sendOriginationOperation example_node example_sodium example_CryptoUtils ''alphanet''
        example_keyStore 1000 ''tz1Baker'' True True 100,
      sendKeyRevealOperation example_node example_sodium example_CryptoUtils ''alphanet''
        example_keyStore 100,
      sendIdentityActivationOperation example_node example_sodium example_CryptoUtils
        ''alphanet'' example_keyStore ''secret'']
   = [1, 1, 1, 1, 0]"
  by (simp add: sendTransactionOperation_def sendDelegationOperation_def
      sendOriginationOperation_def sendKeyRevealOperation_def
      sendIdentityActivationOperation_def await_def TezosNode_getBlockHead_def
      TezosNode_getAccountForBlock_def Let_def
      sendOperation_unfold example_sign example_node_def example_head_def
      checkAppliedOperationResults_def example_applied_def validAppliedKinds_has_def
      validAppliedKinds_def first_element_def is_account_fetch_def)

text \<open>
  Claim C8, amended. The wrappers for a transaction, a delegation, an origination and a
  reveal fetch the current block head and then the account of the key store (all four need
  a fresh counter), build exactly one content of their kind and call \<open>sendOperation\<close> on
  it. The activation wrapper fetches neither itself: it builds one content of kind
  \<open>activate_account\<close> and calls \<open>sendOperation\<close>, whose first call fetches the block head,
  and no account is fetched in the whole run.
\<close>

theorem wrappers_fetch_and_submit:
  assumes "node_getBlockHead node log network = Inr blockHead"
    and "node_getAccountForBlock node (log @ [GetBlockHead network]) network (hash blockHead)
           (publicKeyHash keyStore) = Inr account"
  shows "(\<exists>content. kind_of content = Some ''transaction'' \<and>
            sendTransactionOperation node so cu network keyStore to amount fee log =
              sendOperation node so cu network [content] keyStore
                (log @ [GetBlockHead network,
                        GetAccountForBlock network (hash blockHead) (publicKeyHash keyStore)]))
       \<and> (\<exists>content. kind_of content = Some ''delegation'' \<and>
            sendDelegationOperation node so cu network keyStore delegate fee log =
              sendOperation node so cu network [content] keyStore
                (log @ [GetBlockHead network,
                        GetAccountForBlock network (hash blockHead) (publicKeyHash keyStore)]))
       \<and> (\<exists>content. kind_of content = Some ''origination'' \<and>
            sendOriginationOperation node so cu network keyStore amount delegate spendable
                delegatable fee log =
              sendOperation node so cu network [content] keyStore
                (log @ [GetBlockHead network,
                        GetAccountForBlock network (hash blockHead) (publicKeyHash keyStore)]))
       \<and> (\<exists>content. kind_of content = Some ''reveal'' \<and>
            sendKeyRevealOperation node so cu network keyStore fee log =
              sendOperation node so cu network [content] keyStore
                (log @ [GetBlockHead network,
                        GetAccountForBlock network (hash blockHead) (publicKeyHash keyStore)]))
       \<and> (\<exists>content. kind_of content = Some ''activate_account'' \<and>
            sendIdentityActivationOperation node so cu network keyStore activationCode log =
              sendOperation node so cu network [content] keyStore log)
       \<and> (\<exists>calls. snd (sendIdentityActivationOperation node so cu network keyStore
                          activationCode log) = log @ GetBlockHead network # calls
                  \<and> filter is_account_fetch calls = [])"
proof -
  have one: "\<exists>content. kind_of content = Some k \<and> run = submit [content]"
    if "run = submit [c]" and "kind_of c = Some k"
    for run :: "(js_error + OperationResult) \<times> rpc_call list" and submit c k
    using that by blast
  have transaction: "\<exists>content. kind_of content = Some ''transaction'' \<and>
      sendTransactionOperation node so cu network keyStore to amount fee log =
        sendOperation node so cu network [content] keyStore
          (log @ [GetBlockHead network,
                  GetAccountForBlock network (hash blockHead) (publicKeyHash keyStore)])"
    by (rule one, rule sendTransactionOperation_unfold [OF assms]) simp
  have delegation: "\<exists>content. kind_of content = Some ''delegation'' \<and>
      sendDelegationOperation node so cu network keyStore delegate fee log =
        sendOperation node so cu network [content] keyStore
          (log @ [GetBlockHead network,
                  GetAccountForBlock network (hash blockHead) (publicKeyHash keyStore)])"
    by (rule one, rule sendDelegationOperation_unfold [OF assms]) simp
  have origination: "\<exists>content. kind_of content = Some ''origination'' \<and>
      sendOriginationOperation node so cu network keyStore amount delegate spendable
          delegatable fee log =
        sendOperation node so cu network [content] keyStore
          (log @ [GetBlockHead network,
                  GetAccountForBlock network (hash blockHead) (publicKeyHash keyStore)])"
    by (rule one, rule sendOriginationOperation_unfold [OF assms]) simp
  have reveal: "\<exists>content. kind_of content = Some ''reveal'' \<and>
      sendKeyRevealOperation node so cu network keyStore fee log =
        sendOperation node so cu network [content] keyStore
          (log @ [GetBlockHead network,
                  GetAccountForBlock network (hash blockHead) (publicKeyHash keyStore)])"
    by (rule one, rule sendKeyRevealOperation_unfold [OF assms]) simp
  have activation: "\<exists>content. kind_of content = Some ''activate_account'' \<and>
      sendIdentityActivationOperation node so cu network keyStore activationCode log =
        sendOperation node so cu network [content] keyStore log"
    by (rule one, rule sendIdentityActivationOperation_unfold) simp
  have activation_log:
    "\<exists>calls. snd (sendIdentityActivationOperation node so cu network keyStore
                          activationCode log) = log @ GetBlockHead network # calls
                  \<and> filter is_account_fetch calls = []"
    using sendOperation_log by (simp add: sendIdentityActivationOperation_unfold)
  from transaction delegation origination reveal activation activation_log
  show ?thesis by (intro conjI)
qed

theorem wrappers_fetch_and_submit_witness:
  "snd (sendKeyRevealOperation example_node example_sodium example_CryptoUtils ''alphanet''
          example_keyStore 100 [])
     = snd (sendOperation example_node example_sodium example_CryptoUtils ''alphanet''
         [JObject
            [(''kind'', JString ''reveal''),
             (''source'', JString ''tz1Sender''),
             (''fee'', JString ''100''),
             (''counter'', JString ''42''),
             (''gas_limit'', JString ''120''),
             (''storage_limit'', JString ''0''),
             (''public_key'', JString ''edpkSender'')]]
         example_keyStore
         [GetBlockHead ''alphanet'', GetAccountForBlock ''alphanet'' ''BLockHead'' ''tz1Sender''])
   \<and> filter is_account_fetch
        (snd (sendIdentityActivationOperation example_node example_sodium example_CryptoUtils
                ''alphanet'' example_keyStore ''secret'' [])) = []"
proof -
  have h1: "node_getBlockHead example_node [] ''alphanet'' = Inr example_head"
    by (simp add: example_node_def)
  have h2: "node_getAccountForBlock example_node ([] @ [GetBlockHead ''alphanet'']) ''alphanet''
              (hash example_head) (publicKeyHash example_keyStore) = Inr example_account"
    by (simp add: example_node_def)
  have n: "Number_toString 100 = ''100''"
    "Number_toString (counter example_account + 1) = ''42''"
    by (simp_all add: Number_toString_def decimal.simps digit_char_def example_account_def)
  have reveal: "sendKeyRevealOperation example_node example_sodium example_CryptoUtils
      ''alphanet'' example_keyStore 100 []
     = sendOperation example_node example_sodium example_CryptoUtils ''alphanet''
         [JObject
            [(''kind'', JString ''reveal''),
             (''source'', JString ''tz1Sender''),
             (''fee'', JString ''100''),
             (''counter'', JString ''42''),
             (''gas_limit'', JString ''120''),
             (''storage_limit'', JString ''0''),
             (''public_key'', JString ''edpkSender'')]]
         example_keyStore
         [GetBlockHead ''alphanet'', GetAccountForBlock ''alphanet'' ''BLockHead'' ''tz1Sender'']"
    using h1 h2
    by (simp add: sendKeyRevealOperation_def await_def TezosNode_getBlockHead_def
        TezosNode_getAccountForBlock_def Let_def n example_head_def example_keyStore_def)
  from wrappers_fetch_and_submit
         [OF h1 h2, of example_sodium example_CryptoUtils "''secret''"]
  obtain calls where
    "snd (sendIdentityActivationOperation example_node example_sodium example_CryptoUtils
            ''alphanet'' example_keyStore ''secret'' []) = [] @ GetBlockHead ''alphanet'' # calls"
    "filter is_account_fetch calls = []"
    by blast
  with reveal show ?thesis by (simp add: is_account_fetch_def)
qed

text \<open>
  Claim C9. \<open>unlockFundraiserIdentity\<close> on a mnemonic, an email and a password is
  \<open>unlockIdentityWithMnemonic\<close> on the mnemonic and the email followed by the password: the
  same identity, or the same error when the derivation throws.
\<close>

theorem unlockFundraiserIdentity_is_unlockIdentityWithMnemonic:
  "unlockFundraiserIdentity cu mnemonic email password =
     unlockIdentityWithMnemonic cu mnemonic (email @ password)"
  by (simp add: unlockFundraiserIdentity_def unlockIdentityWithMnemonic_def)

text \<open>
  Claim C10, as stated, fails on a first element that lacks \<open>contents\<close> and whose top-level
  kind is present and not allowed: the check of the top-level kind comes first and throws
  the validation error, so the missing \<open>contents\<close> is never read. This is the shape of an
  error report of the node (\<open>kind\<close>, \<open>id\<close> and \<open>contract\<close> are ``only if error'').
\<close>

theorem checkAppliedOperationResults_missing_contents_counterexample:
  "applied_contents example_rejected = Undefined
   \<and> checkAppliedOperationResults [example_rejected] \<noteq> Inl TypeError
   \<and> checkAppliedOperationResults [example_rejected]
       = Inl (Error ''Could not apply operation because: proto.alpha.contract.counter_in_the_past'')"
  by (simp add: checkAppliedOperationResults_def example_rejected_def validAppliedKinds_has_def
      validAppliedKinds_def could_not_apply_def template_def)

text \<open>
  Claim C10, amended. The validator reads the first element of the apply result and
  iterates its \<open>contents\<close> without a guard.
  \<^item> On a non-empty array whose first element has a contents array, it returns, or it
    throws the validation error: nothing else can fail.
  \<^item> On an empty array the read of the first element's kind fails (a \<open>TypeError\<close>).
  \<^item> On a first element without \<open>contents\<close> whose top-level kind is null, absent or
    allowed, the iteration fails (a \<open>TypeError\<close>).
  \<^item> On a first element without \<open>contents\<close> whose top-level kind is present and not
    allowed, it throws the validation error with the top-level \<open>id\<close>.
\<close>

theorem checkAppliedOperationResults_failures:
  "(applied_contents f = Defined cs \<longrightarrow>
      checkAppliedOperationResults (f # rest) = Inr () \<or>
      (\<exists>i. checkAppliedOperationResults (f # rest) = Inl (could_not_apply i)))
   \<and> checkAppliedOperationResults [] = Inl TypeError
   \<and> (applied_contents f \<in> {Undefined, Null} \<and>
      applied_kind f \<in> {Undefined, Null} \<union> Defined ` allowed_kinds \<longrightarrow>
      checkAppliedOperationResults (f # rest) = Inl TypeError)
   \<and> (applied_contents f \<in> {Undefined, Null} \<and> applied_kind f = Defined k
        \<and> k \<notin> allowed_kinds \<longrightarrow>
      checkAppliedOperationResults (f # rest) = Inl (could_not_apply (applied_id f)))"
  using check_contents_result [of cs]
  by (auto simp: checkAppliedOperationResults_def validAppliedKinds_has_iff)

theorem checkAppliedOperationResults_failures_witness:
  "checkAppliedOperationResults [example_failed_content]
     = Inl (could_not_apply (Defined ''proto.unexpected''))
   \<and> checkAppliedOperationResults [] = Inl TypeError
   \<and> checkAppliedOperationResults [example_applied\<lparr>applied_contents := Undefined\<rparr>]
     = Inl TypeError
   \<and> checkAppliedOperationResults [example_rejected]
     = Inl (could_not_apply (applied_id example_rejected))"
proof -
  have c: "applied_contents example_failed_content =
          Defined [\<lparr>content_kind = Defined ''transaction'', content_id = Undefined,
                    content_metadata = Undefined\<rparr>,
                   \<lparr>content_kind = Defined ''endorsement'',
                    content_id = Defined ''proto.unexpected'', content_metadata = Undefined\<rparr>]"
    by (simp add: example_failed_content_def)
  have m: "applied_contents (example_applied\<lparr>applied_contents := Undefined\<rparr>) \<in> {Undefined, Null}
      \<and> applied_kind (example_applied\<lparr>applied_contents := Undefined\<rparr>)
          \<in> {Undefined, Null} \<union> Defined ` allowed_kinds"
    by (simp add: example_applied_def)
  have r: "applied_contents example_rejected \<in> {Undefined, Null}
      \<and> applied_kind example_rejected = Defined ''temporary''
      \<and> ''temporary'' \<notin> allowed_kinds"
    by (simp add: example_rejected_def allowed_kinds_def)
  have e: "checkAppliedOperationResults [example_failed_content]
     = Inl (could_not_apply (Defined ''proto.unexpected''))"
    by (simp add: checkAppliedOperationResults_def example_failed_content_def
        validAppliedKinds_has_def validAppliedKinds_def)
  from checkAppliedOperationResults_failures
         [of example_failed_content
             "[\<lparr>content_kind = Defined ''transaction'', content_id = Undefined,
                 content_metadata = Undefined\<rparr>,
               \<lparr>content_kind = Defined ''endorsement'',
                 content_id = Defined ''proto.unexpected'', content_metadata = Undefined\<rparr>]"
             "[]" "[]"] c
  have r1: "checkAppliedOperationResults [example_failed_content] = Inr () \<or>
      (\<exists>i. checkAppliedOperationResults [example_failed_content] = Inl (could_not_apply i))"
    and r2: "checkAppliedOperationResults [] = Inl TypeError"
    by blast+
  from checkAppliedOperationResults_failures
         [of "example_applied\<lparr>applied_contents := Undefined\<rparr>" "[]" "[]" "[]"] m
  have r3: "checkAppliedOperationResults [example_applied\<lparr>applied_contents := Undefined\<rparr>]
     = Inl TypeError"
    by blast
  from checkAppliedOperationResults_failures
         [of example_rejected "[]" "[]" "''temporary''"] r
  have r4: "checkAppliedOperationResults [example_rejected]
     = Inl (could_not_apply (applied_id example_rejected))"
    by blast
  from e r2 r3 r4 show ?thesis by simp
qed

end
